theory Spec2Isabelle
  imports Main "HOL-Library.Sublist"
begin

section \<open>Text\<close>

text \<open>
  The scripts read each file as a Python \<open>str\<close> and work on it with the \<open>re\<close> module and a few
  string methods. A text is modelled as a \<open>string\<close>; the model is exact for ASCII text, which is
  what every table entry of the scripts is made of. Case mapping is modelled for the ASCII
  letters only.
\<close>

definition is_quote :: "char \<Rightarrow> bool" where
  "is_quote c = (c = CHR 0x27 \<or> c = CHR 0x22)"

definition is_space :: "char \<Rightarrow> bool" where
  \<comment> \<open>the characters matched by \<open>\s\<close> in a \<open>str\<close> pattern, among code points below 256\<close>
  "is_space c = (c \<in> set [CHR 0x09, CHR 0x0A, CHR 0x0B, CHR 0x0C, CHR 0x0D,
                            CHR 0x1C, CHR 0x1D, CHR 0x1E, CHR 0x1F, CHR 0x20, CHR 0x85, CHR 0xA0])"

definition lower_letters :: string where
  "lower_letters = ''abcdefghijklmnopqrstuvwxyz''"

definition upper_letters :: string where
  "upper_letters = ''ABCDEFGHIJKLMNOPQRSTUVWXYZ''"




definition to_upper :: "char \<Rightarrow> char" where
  "to_upper c = (case map_of (zip lower_letters upper_letters) c of Some u \<Rightarrow> u | None \<Rightarrow> c)"

definition to_lower :: "char \<Rightarrow> char" where
  "to_lower c = (case map_of (zip upper_letters lower_letters) c of Some l \<Rightarrow> l | None \<Rightarrow> c)"

fun split_on :: "char \<Rightarrow> string \<Rightarrow> string list" where
  \<comment> \<open>\<open>s.split(c)\<close> with a one-character separator: never empty, keeps empty fields\<close>
  "split_on c [] = [[]]"
| "split_on c (x # xs) =
     (if x = c then [] # split_on c xs
      else (case split_on c xs of w # ws \<Rightarrow> (x # w) # ws | [] \<Rightarrow> [[x]]))"

fun capitalize :: "string \<Rightarrow> string" where
  \<comment> \<open>\<open>str.capitalize\<close>: first character upper case, all others lower case\<close>
  "capitalize [] = []"
| "capitalize (x # xs) = to_upper x # map to_lower xs"

section \<open>Regular expressions as the scripts use them\<close>

text \<open>
  The patterns of the scripts are sequences of single characters, character classes,
  greedy repetitions of a character class and capturing groups that are not nested.
  \<open>re_match\<close> is Python's backtracking matcher on this fragment, anchored at the start of
  its input: a greedy repetition first takes as many characters as it can and gives them back
  one at a time when the rest of the pattern fails. The result is the trace of the match (the
  characters consumed, with the group brackets) and the text after the match.

  The scripts splice table entries into the pattern text without escaping them. Every entry
  of their tables is made of letters, digits and dashes, none of which is special in a
  pattern, so a spliced name is the sequence of its characters (\<open>lits\<close>).
\<close>

datatype cls = Is char | OneOf "char list" | NoneOf "char list" | Space

fun ok :: "cls \<Rightarrow> char \<Rightarrow> bool" where
  "ok (Is c) x = (x = c)"
| "ok (OneOf cs) x = (x \<in> set cs)"
| "ok (NoneOf cs) x = (x \<notin> set cs)"
| "ok Space x = is_space x"

datatype piece = One cls | Star cls | Plus cls | GOpen | GClose

datatype tok = Ch char | Op | Cl

type_synonym pattern = "piece list"

fun re_match :: "pattern \<Rightarrow> string \<Rightarrow> (tok list \<times> string) option" where
  "re_match [] s = Some ([], s)"
| "re_match (GOpen # ps) s = map_option (\<lambda>(t, r). (Op # t, r)) (re_match ps s)"
| "re_match (GClose # ps) s = map_option (\<lambda>(t, r). (Cl # t, r)) (re_match ps s)"
| "re_match (One c # ps) [] = None"
| "re_match (One c # ps) (x # xs) =
     (if ok c x then map_option (\<lambda>(t, r). (Ch x # t, r)) (re_match ps xs) else None)"
| "re_match (Plus c # ps) [] = None"
| "re_match (Plus c # ps) (x # xs) =
     (if ok c x then map_option (\<lambda>(t, r). (Ch x # t, r)) (re_match (Star c # ps) xs) else None)"
| "re_match (Star c # ps) [] = re_match ps []"
| "re_match (Star c # ps) (x # xs) =
     (if ok c x
      then (case re_match (Star c # ps) xs of
              Some (t, r) \<Rightarrow> Some (Ch x # t, r)
            | None \<Rightarrow> re_match ps (x # xs))
      else re_match ps (x # xs))"

fun matched :: "tok list \<Rightarrow> string" where
  "matched [] = []"
| "matched (Ch c # ts) = c # matched ts"
| "matched (Op # ts) = matched ts"
| "matched (Cl # ts) = matched ts"

fun groups_from :: "string option \<Rightarrow> tok list \<Rightarrow> string list" where
  \<comment> \<open>the texts of the groups in order; the first argument is the group being read\<close>
  "groups_from cur [] = []"
| "groups_from None (Ch c # ts) = groups_from None ts"
| "groups_from (Some g) (Ch c # ts) = groups_from (Some (g @ [c])) ts"
| "groups_from cur (Op # ts) = groups_from (Some []) ts"
| "groups_from None (Cl # ts) = groups_from None ts"
| "groups_from (Some g) (Cl # ts) = g # groups_from None ts"

definition groups :: "tok list \<Rightarrow> string list" where
  "groups t = groups_from None t"

datatype rpiece = Txt string | Grp nat

type_synonym template = "rpiece list"

fun expand :: "template \<Rightarrow> tok list \<Rightarrow> string" where
  \<comment> \<open>the replacement text: \<open>Grp n\<close> is the back-reference \<open>\n\<close>. The templates of the
      scripts only name groups that their pattern has.\<close>
  "expand [] t = []"
| "expand (Txt s # tm) t = s @ expand tm t"
| "expand (Grp n # tm) t =
     (if 1 \<le> n \<and> n \<le> length (groups t) then groups t ! (n - 1) else []) @ expand tm t"


lemma re_match_suffix: "re_match p s = Some (t, r) \<Longrightarrow> s = matched t @ r"
proof (induction p s arbitrary: t r rule: re_match.induct)
  case (9 c ps x xs)
  then show ?case
    by (auto split: if_splits option.splits)
qed (auto split: if_splits)

function re_sub :: "pattern \<Rightarrow> template \<Rightarrow> string \<Rightarrow> string" where
  \<comment> \<open>\<open>re.sub(p, repl, s)\<close>: the leftmost matches, none overlapping another, each replaced by the
      expanded template; the scan resumes after a match. After an empty match the scan moves
      on by one character (no pattern of the scripts matches the empty text).\<close>
  "re_sub p tm s =
     (case re_match p s of
        Some (t, r) \<Rightarrow>
          (if matched t = []
           then (case s of [] \<Rightarrow> expand tm t | x # xs \<Rightarrow> expand tm t @ x # re_sub p tm xs)
           else expand tm t @ re_sub p tm r)
      | None \<Rightarrow> (case s of [] \<Rightarrow> [] | x # xs \<Rightarrow> x # re_sub p tm xs))"
  by pat_completeness auto
termination
proof (relation "measure (\<lambda>(p, tm, s). length s)")
  show "wf (measure (\<lambda>(p, tm, s). length s))" by simp
next
  fix p :: pattern and tm :: template and s x2 t r
  assume "re_match p s = Some x2" "(t, r) = x2" "matched t \<noteq> []"
  then have "s = matched t @ r" by (simp add: re_match_suffix)
  with \<open>matched t \<noteq> []\<close> have "length r < length s"
    by (metis length_append length_greater_0_conv less_add_same_cancel2)
  then show "((p, tm, r), p, tm, s) \<in> measure (\<lambda>(p, tm, s). length s)" by simp
qed auto

declare re_sub.simps [simp del]

definition lits :: "string \<Rightarrow> pattern" where
  "lits s = map (\<lambda>c. One (Is c)) s"

definition quote_cls :: cls where
  \<comment> \<open>the class \<open>['"]\<close>\<close>
  "quote_cls = OneOf [CHR 0x27, CHR 0x22]"

section \<open>The binding name of a module file\<close>

definition component_name :: "string \<Rightarrow> string" where
  \<comment> \<open>\<open>old_path.split('/')[-1]\<close>\<close>
  "component_name old_path = last (split_on CHR ''/'' old_path)"

definition pascal_name :: "string \<Rightarrow> string" where
  \<comment> \<open>\<open>''.join(word.capitalize() for word in component_name.split('-'))\<close>\<close>
  "pascal_name name = concat (map capitalize (split_on CHR ''-'' name))"

datatype error = InvalidIdentifier | AmbiguousRule | IOFailure



section \<open>The rename table of update-imports.py\<close>



definition RENAMES :: "(string \<times> string) list" where
  "RENAMES =
    [(''AIAssistantFAB'', ''ai-assistant-fab''),
     (''AIAssistantPanel'', ''ai-assistant-panel''),
     (''AIChat'', ''ai-chat''),
     (''ChallengeCard'', ''challenge-card''),
     (''ChallengeForm'', ''challenge-form''),
     (''ChallengeHistory'', ''challenge-history''),
     (''ChallengePanel'', ''challenge-panel''),
     (''ChallengeVotingWidget'', ''challenge-voting-widget''),
     (''Chat'', ''in-graph-chat''),
     (''ClusterView'', ''cluster-view''),
     (''CollaborationPanel'', ''collaboration-panel''),
     (''CommandMenu'', ''command-menu''),
     (''ConsensusVotingWidget'', ''consensus-voting-widget''),
     (''ContextMenu'', ''context-menu''),
     (''CustomNode'', ''custom-node''),
     (''EnhancedGraphCanvas'', ''enhanced-graph-canvas''),
     (''ErrorBoundary'', ''error-boundary''),
     (''FileViewerExample'', ''file-viewer-example''),
     (''FileViewerSidebar'', ''file-viewer-sidebar''),
     (''FilterPanel'', ''filter-panel''),
     (''GraphCanvas'', ''graph-canvas''),
     (''GraphEdge'', ''graph-edge''),
     (''GraphNode'', ''graph-node''),
     (''GraphSidebar'', ''graph-sidebar''),
     (''LayoutControls'', ''layout-controls''),
     (''LoadingStates'', ''loading-states''),
     (''LoginDialog'', ''login-dialog''),
     (''MethodologyProgressPanel'', ''methodology-progress-panel''),
     (''MethodologySelector'', ''methodology-selector''),
     (''Navigation'', ''navigation''),
     (''NotificationBell'', ''notification-bell''),
     (''PerformanceMonitor'', ''performance-monitor''),
     (''PromotionEligibilityBadge'', ''promotion-eligibility-badge''),
     (''PromotionEligibilityDashboard'', ''promotion-eligibility-dashboard''),
     (''PromotionLedgerTable'', ''promotion-ledger-table''),
     (''RemoteCursor'', ''remote-cursor''),
     (''ReputationBadge'', ''reputation-badge''),
     (''ThreadedComments'', ''threaded-comments''),
     (''TimelineView'', ''timeline-view''),
     (''VeracityBadge'', ''veracity-badge''),
     (''VeracityBreakdown'', ''veracity-breakdown''),
     (''VeracityIndicator'', ''veracity-indicator''),
     (''VeracityPanel'', ''veracity-badge''),
     (''VeracityTimeline'', ''veracity-timeline''),
     (''VisualizationControls'', ''visualization-controls'')]"

section \<open>The path table of update-feature-imports.py\<close>


section \<open>The specifier table of fix-moved-imports.py\<close>

definition IMPORT_FIXES :: "(string \<times> string) list" where
  "IMPORT_FIXES =
    [(''@/components/challenge-card'', ''@/components/challenges''),
     (''@/components/challenge-form'', ''@/components/challenges''),
     (''@/components/challenge-history'', ''@/components/challenges''),
     (''@/components/challenge-panel'', ''@/components/challenges''),
     (''@/components/challenge-voting-widget'', ''@/components/challenges''),
     (''@/components/enhanced-graph-canvas'', ''@/components/graph/enhanced-graph-canvas''),
     (''@/components/custom-node'', ''@/components/graph/custom-node''),
     (''@/components/context-panel'', ''@/components/panels''),
     (''@/components/filter-panel'', ''@/components/panels''),
     (''@/components/graph-sidebar'', ''@/components/panels''),
     (''@/components/reputation-badge'', ''@/components/credibility''),
     (''@/components/providers'', ''@/components/layout/providers''),
     (''@/components/theme-provider'', ''@/components/layout/theme-provider'')]"

section \<open>Files and printed lines\<close>







section \<open>update-imports.py\<close>












section \<open>update-feature-imports.py\<close>







section \<open>fix-moved-imports.py\<close>

definition named_pattern :: "string \<Rightarrow> string \<Rightarrow> pattern" where
  \<comment> \<open>\<open>import\s+\{\s*([^}]*PascalName[^}]*)\s*\}\s+from\s+['"]\<close>, the escaped old path, \<open>['"]\<close>\<close>
  "named_pattern pascal old_path =
     lits ''import'' @ [Plus Space, One (Is CHR ''{''), Star Space, GOpen, Star (NoneOf ''}'')]
     @ lits pascal @ [Star (NoneOf ''}''), GClose, Star Space, One (Is CHR ''}''), Plus Space]
     @ lits ''from'' @ [Plus Space, One quote_cls] @ lits old_path @ [One quote_cls]"

definition named_template :: "string \<Rightarrow> template" where
  \<comment> \<open>\<open>import { \1 } from 'new_path'\<close>\<close>
  "named_template new_path =
     [Txt ''import { '', Grp 1, Txt ('' } from '' @ [CHR 0x27] @ new_path @ [CHR 0x27])]"

definition default_pattern :: "string \<Rightarrow> string \<Rightarrow> pattern" where
  \<comment> \<open>\<open>import\s+PascalName\s+from\s+['"]\<close>, the escaped old path, \<open>['"]\<close>\<close>
  "default_pattern pascal old_path =
     lits ''import'' @ [Plus Space] @ lits pascal @ [Plus Space]
     @ lits ''from'' @ [Plus Space, One quote_cls] @ lits old_path @ [One quote_cls]"

definition default_template :: "string \<Rightarrow> string \<Rightarrow> template" where
  \<comment> \<open>\<open>import PascalName from 'new_path'\<close>\<close>
  "default_template pascal new_path =
     [Txt (''import '' @ pascal @ '' from '' @ [CHR 0x27] @ new_path @ [CHR 0x27])]"

definition fix_step :: "string \<times> string \<Rightarrow> string \<Rightarrow> string" where
  \<comment> \<open>the body of the loop over \<open>IMPORT_FIXES.items()\<close>\<close>
  "fix_step = (\<lambda>(old_path, new_path) content.
     (let pascal = pascal_name (component_name old_path);
          content = re_sub (named_pattern pascal old_path) (named_template new_path) content
      in re_sub (default_pattern pascal old_path) (default_template pascal new_path) content))"

definition fix_all :: "(string \<times> string) list \<Rightarrow> string \<Rightarrow> string" where
  "fix_all import_fixes content = fold fix_step import_fixes content"



section \<open>Notions used in the properties\<close>

definition tick :: string where
  \<comment> \<open>the single quote, as a text\<close>
  "tick = [CHR 0x27]"







section \<open>Properties\<close>

subsection \<open>The rename table\<close>

text \<open>
  Claim C9, as the table has it. The two old names that the table sends to the one new name
  \<open>veracity-badge\<close> are \<open>VeracityBadge\<close> and \<open>VeracityPanel\<close>; \<open>VeracityTimeline\<close> is sent to
  \<open>veracity-timeline\<close>, a name of its own, and no other entry shares a new name with another.
\<close>

theorem renames_veracity_collision:
  "map_of RENAMES ''VeracityBadge'' = Some ''veracity-badge'' \<and>
   map_of RENAMES ''VeracityPanel'' = Some ''veracity-badge'' \<and>
   map_of RENAMES ''VeracityTimeline'' = Some ''veracity-timeline'' \<and>
   [k \<leftarrow> map fst RENAMES. map_of RENAMES k = Some ''veracity-badge'']
     = [''VeracityBadge'', ''VeracityPanel'']"
  by code_simp

text \<open>
  Claim C9 as it is stated fails: \<open>VeracityTimeline\<close> is not sent to \<open>veracity-badge\<close>.
\<close>

theorem renames_timeline_counterexample:
  "\<not> (map_of RENAMES ''VeracityPanel'' = Some ''veracity-badge'' \<and>
      map_of RENAMES ''VeracityTimeline'' = Some ''veracity-badge'')"
  by code_simp

subsection \<open>The binding name\<close>












subsection \<open>Texts that no pattern matches\<close>





lemma re_sub_hit:
  "re_match p s = Some (t, r) \<Longrightarrow> matched t \<noteq> [] \<Longrightarrow> re_sub p tm s = expand tm t @ re_sub p tm r"
  by (subst re_sub.simps) simp






subsection \<open>Single statements under fix-moved-imports.py\<close>

text \<open>
  Claim C2, evaluated on the code. The group of the pattern takes the blank before the closing
  brace with it, and the replacement adds its own: the text written has two blanks before the
  brace, and is not the text of the claim.
\<close>

theorem challenge_card_doubled_blank:
  "fix_all IMPORT_FIXES (''import { ChallengeCard } from '' @ tick @ ''@/components/challenge-card'' @ tick)
     = ''import { ChallengeCard  } from '' @ tick @ ''@/components/challenges'' @ tick \<and>
   ''import { ChallengeCard  } from '' @ tick @ ''@/components/challenges'' @ tick
     \<noteq> ''import { ChallengeCard } from '' @ tick @ ''@/components/challenges'' @ tick"
  by code_simp



subsection \<open>A failing file in the batch\<close>

















end
